theory Spec2Isabelle
  imports Main "HOL-Library.Word"
begin

unbundle bit_operations_syntax

section \<open>arping: the probe session of \<^verbatim>\<open>arping.c\<close>\<close>

text \<open>
  A shallow embedding of the ARP probe engine of \<^verbatim>\<open>src/arping.c\<close>: the session record
  \<^verbatim>\<open>struct run_state\<close>, the packet codec (\<^verbatim>\<open>send_pack\<close>, \<^verbatim>\<open>recv_pack\<close>), the finisher
  (\<^verbatim>\<open>finish\<close>), the interface flag check (\<^verbatim>\<open>check_ifflags\<close>), the option switch of
  \<^verbatim>\<open>main\<close> and the poll loop of \<^verbatim>\<open>event_loop\<close>.

  C \<^verbatim>\<open>int\<close> and \<^verbatim>\<open>unsigned int\<close> are 32-bit words, read with \<open>sint\<close> where the source
  compares signed values; \<^verbatim>\<open>unsigned char\<close> is an 8-bit word, \<^verbatim>\<open>unsigned short\<close> a 16-bit
  word, \<^verbatim>\<open>uint64_t\<close> a 64-bit word and \<^verbatim>\<open>ssize_t\<close> (only compared, never overflowing
  here) an \<open>int\<close>. One-bit bit-fields are booleans. Buffers are byte lists.
\<close>

subsection \<open>Constants of the system headers\<close>

type_synonym c_int = "32 word"
type_synonym byte = "8 word"

definition FINAL_PACKS :: c_int where "FINAL_PACKS = 2"

definition ARPHRD_ETHER :: "16 word" where "ARPHRD_ETHER = 1"
definition ARPHRD_FDDI :: "16 word" where "ARPHRD_FDDI = 774"
definition ETH_P_IP :: "16 word" where "ETH_P_IP = 0x0800"
definition ARPOP_REQUEST :: "16 word" where "ARPOP_REQUEST = 1"
definition ARPOP_REPLY :: "16 word" where "ARPOP_REPLY = 2"

definition PACKET_HOST :: byte where "PACKET_HOST = 0"
definition PACKET_BROADCAST :: byte where "PACKET_BROADCAST = 1"
definition PACKET_MULTICAST :: byte where "PACKET_MULTICAST = 2"

definition IFF_UP :: "32 word" where "IFF_UP = 0x1"
definition IFF_LOOPBACK :: "32 word" where "IFF_LOOPBACK = 0x8"
definition IFF_NOARP :: "32 word" where "IFF_NOARP = 0x80"

definition SIGINT :: "32 word" where "SIGINT = 2"
definition SIGQUIT :: "32 word" where "SIGQUIT = 3"
definition SIGTERM :: "32 word" where "SIGTERM = 15"

definition EAGAIN :: c_int where "EAGAIN = 11"
definition EINVAL :: c_int where "EINVAL = 22"
definition ENETDOWN :: c_int where "ENETDOWN = 100"

text \<open>\<^verbatim>\<open>sizeof(struct arphdr)\<close>: hardware type, protocol type, two lengths, operation.\<close>

definition sizeof_arphdr :: nat where "sizeof_arphdr = 8"

subsection \<open>The session state\<close>

text \<open>
  \<^verbatim>\<open>struct sockaddr_ll\<close> as it lies in a \<^verbatim>\<open>struct sockaddr_storage\<close>: \<open>sll_addr\<close> holds the
  bytes of the storage from the offset of \<^verbatim>\<open>sll_addr\<close> on, so that a hardware address
  longer than the eight declared bytes (the reason for \<^verbatim>\<open>sll_len\<close> in the source) is
  still inside the object. A copy of \<open>n\<close> bytes out of it is \<open>take n\<close>, which is what
  the source does as long as \<open>n \<le> length sll_addr\<close>.
\<close>

record sockaddr_ll =
  sll_family :: "16 word"
  sll_protocol :: "16 word"
  sll_ifindex :: c_int
  sll_hatype :: "16 word"
  sll_pkttype :: byte
  sll_halen :: byte
  sll_addr :: "byte list"

record timespec =
  tv_sec :: int
  tv_nsec :: int

record device =
  name :: "string option"
  ifindex :: c_int

record run_state =
  device :: device
  source :: "string option"
  gsrc :: "32 word"
  gdst :: "32 word"
  target :: string
  count :: c_int
  timeout :: c_int
  interval :: "32 word"
  me :: sockaddr_ll
  he :: sockaddr_ll
  last :: timespec
  sent :: c_int
  brd_sent :: c_int
  received :: c_int
  brd_recv :: c_int
  req_recv :: c_int
  advert :: bool
  broadcast_only :: bool
  dad :: bool
  quiet :: bool
  quit_on_reply :: bool
  unicasting :: bool
  unsolicited :: bool

subsection \<open>Standard output\<close>

text \<open>
  A call of \<^verbatim>\<open>printf\<close> is kept as its format string and its arguments; the formatting
  itself belongs to the C library.
\<close>

datatype printf_arg = ArgD c_int | ArgS string

type_synonym printf_call = "string \<times> printf_arg list"

subsection \<open>\<^verbatim>\<open>finish\<close>\<close>

text \<open>
  Lines 369-392. The summary goes to standard output unless \<^verbatim>\<open>quiet\<close>; the value
  returned is \<^verbatim>\<open>!!received\<close> in duplicate address detection, 0 for an unsolicited
  announcement, \<^verbatim>\<open>!received\<close> otherwise.
\<close>

definition finish :: "run_state \<Rightarrow> printf_call list \<times> c_int" where
  "finish ctl =
    ((if \<not> quiet ctl then
        [(''Sent %d probes (%d broadcast(s))\<newline>'', [ArgD (sent ctl), ArgD (brd_sent ctl)]),
         (''Received %d response(s)'', [ArgD (received ctl)])] @
        (if brd_recv ctl \<noteq> 0 \<or> req_recv ctl \<noteq> 0 then
           [('' ('', [])] @
           (if req_recv ctl \<noteq> 0 then [(''%d request(s)'', [ArgD (req_recv ctl)])] else []) @
           (if brd_recv ctl \<noteq> 0 then
              [(''%s%d broadcast(s)'',
                [ArgS (if req_recv ctl \<noteq> 0 then '', '' else ''''), ArgD (brd_recv ctl)])]
            else []) @
           [('')'', [])]
         else []) @
        [(''\<newline>'', [])]
      else []),
     (if dad ctl then (if received ctl \<noteq> 0 then 1 else 0)
      else if unsolicited ctl then 0
      else (if received ctl = 0 then 1 else 0)))"

subsection \<open>Byte order and memory\<close>

text \<open>
  The host is little-endian (the x86 and ARM targets of the package): a 16-bit or 32-bit
  object at an address is read with its first byte lowest, and \<^verbatim>\<open>htons\<close> swaps the two
  bytes of a short. \<open>load16 buf off\<close> is \<^verbatim>\<open>*(uint16_t *)(buf + off)\<close>, \<open>store16\<close> the bytes
  such an assignment writes; \<open>load32\<close> and \<open>store32\<close> are the four-byte \<^verbatim>\<open>memcpy\<close> from
  and to a \<^verbatim>\<open>struct in_addr\<close>, whose \<^verbatim>\<open>s_addr\<close> is the 32-bit word.
\<close>

definition htons :: "16 word \<Rightarrow> 16 word" where
  "htons x = push_bit 8 x OR drop_bit 8 x"

definition load16 :: "byte list \<Rightarrow> nat \<Rightarrow> 16 word" where
  "load16 buf off = ucast (buf ! off) OR push_bit 8 (ucast (buf ! (off + 1)))"

definition store16 :: "16 word \<Rightarrow> byte list" where
  "store16 x = [ucast x, ucast (drop_bit 8 x)]"

definition load32 :: "byte list \<Rightarrow> nat \<Rightarrow> 32 word" where
  "load32 buf off =
     ucast (buf ! off) OR push_bit 8 (ucast (buf ! (off + 1))) OR
     push_bit 16 (ucast (buf ! (off + 2))) OR push_bit 24 (ucast (buf ! (off + 3)))"

definition store32 :: "32 word \<Rightarrow> byte list" where
  "store32 x = [ucast x, ucast (drop_bit 8 x), ucast (drop_bit 16 x), ucast (drop_bit 24 x)]"

text \<open>\<^verbatim>\<open>memcmp(a + off, b, n) != 0\<close>: the \<open>n\<close> bytes at \<open>a + off\<close> and at \<open>b\<close> differ.\<close>

definition memcmp_ne :: "byte list \<Rightarrow> nat \<Rightarrow> byte list \<Rightarrow> nat \<Rightarrow> bool" where
  "memcmp_ne a off b n = (take n (drop off a) \<noteq> take n b)"

subsection \<open>\<^verbatim>\<open>send_pack\<close>\<close>

text \<open>
  Lines 335-356: the bytes \<^verbatim>\<open>buf[0 .. p - buf)\<close> handed to \<^verbatim>\<open>sendto\<close>. The header is
  \<^verbatim>\<open>struct arphdr\<close> (\<^verbatim>\<open>ar_hrd\<close>, \<^verbatim>\<open>ar_pro\<close>, \<^verbatim>\<open>ar_hln\<close>, \<^verbatim>\<open>ar_pln\<close>, \<^verbatim>\<open>ar_op\<close>), followed by the
  sender hardware address, the sender protocol address, the target hardware address
  and the target protocol address. The 256 bytes of \<^verbatim>\<open>buf\<close> hold the 8 + 2 (4 + n) bytes
  of the frame for every hardware length n whose address lies inside a socket address
  storage (n \<le> 116).
\<close>

definition send_pack_buf :: "run_state \<Rightarrow> byte list" where
  "send_pack_buf ctl =
    (let ME = me ctl; HE = he ctl;
         ar_hrd0 = htons (sll_hatype ME);
         ar_hrd = (if ar_hrd0 = htons ARPHRD_FDDI then htons ARPHRD_ETHER else ar_hrd0);
         ar_pro = htons ETH_P_IP;
         ar_hln = sll_halen ME;
         ar_pln = 4;
         ar_op = (if advert ctl then htons ARPOP_REPLY else htons ARPOP_REQUEST)
     in store16 ar_hrd @ store16 ar_pro @ [ar_hln, ar_pln] @ store16 ar_op @
        take (unat ar_hln) (sll_addr ME) @
        store32 (gsrc ctl) @
        (if advert ctl then take (unat ar_hln) (sll_addr ME)
         else take (unat ar_hln) (sll_addr HE)) @
        store32 (gdst ctl))"

text \<open>
  Lines 358-366. \<open>now\<close> is what \<^verbatim>\<open>clock_gettime\<close> stores and \<open>err\<close> what \<^verbatim>\<open>sendto\<close>
  returns; the counters move only when the whole frame went out.
\<close>

definition send_pack :: "run_state \<Rightarrow> timespec \<Rightarrow> c_int \<Rightarrow> c_int \<times> run_state" where
  "send_pack ctl now err =
    (if sint err = int (length (send_pack_buf ctl)) then
       (let ctl1 = ctl\<lparr>last := now\<rparr>;
            ctl2 = ctl1\<lparr>sent := sent ctl1 + 1\<rparr>;
            ctl3 = (if \<not> unicasting ctl2 then ctl2\<lparr>brd_sent := brd_sent ctl2 + 1\<rparr> else ctl2)
        in (err, ctl3))
     else (err, ctl))"

subsection \<open>\<^verbatim>\<open>recv_pack\<close>\<close>

text \<open>
  Lines 405-516. \<open>buf\<close> is the packet array of the caller, \<open>len\<close> the number of bytes
  \<^verbatim>\<open>recvfrom\<close> put there and \<open>FROM\<close> the link-layer address it reported. The block that
  prints the report line (lines 472-500) writes to standard output only and is left
  out; it changes neither the session nor the value returned.
\<close>

definition recv_pack ::
    "run_state \<Rightarrow> byte list \<Rightarrow> int \<Rightarrow> sockaddr_ll \<Rightarrow> c_int \<times> run_state" where
  "recv_pack ctl buf len FROM =
    (let ar_hrd = load16 buf 0; ar_pro = load16 buf 2;
         ar_hln = buf ! 4; ar_pln = buf ! 5; ar_op = load16 buf 6;
         p = sizeof_arphdr; hln = unat ar_hln
     in
     if sll_pkttype FROM \<noteq> PACKET_HOST \<and>
        sll_pkttype FROM \<noteq> PACKET_BROADCAST \<and>
        sll_pkttype FROM \<noteq> PACKET_MULTICAST then (0, ctl)
     else if ar_op \<noteq> htons ARPOP_REQUEST \<and> ar_op \<noteq> htons ARPOP_REPLY then (0, ctl)
     else if ar_hrd \<noteq> htons (sll_hatype FROM) \<and>
             (sll_hatype FROM \<noteq> ARPHRD_FDDI \<or> ar_hrd \<noteq> htons ARPHRD_ETHER) then (0, ctl)
     else if ar_pro \<noteq> htons ETH_P_IP then (0, ctl)
     else if ar_pln \<noteq> 4 then (0, ctl)
     else if ar_hln \<noteq> sll_halen (me ctl) then (0, ctl)
     else if len < int sizeof_arphdr + 2 * (4 + int hln) then (0, ctl)
     else
       (let src_ip = load32 buf (p + hln);
            dst_ip = load32 buf (p + hln + 4 + hln)
        in
        if (if \<not> dad ctl then
              src_ip \<noteq> gdst ctl \<or>
              gsrc ctl \<noteq> dst_ip \<or>
              memcmp_ne buf (p + hln + 4) (sll_addr (me ctl)) hln
            else
              src_ip \<noteq> gdst ctl \<or>
              \<not> memcmp_ne buf p (sll_addr (me ctl)) (unat (sll_halen (me ctl))) \<or>
              (gsrc ctl \<noteq> 0 \<and> gsrc ctl \<noteq> dst_ip))
        then (0, ctl)
        else
          (let ctl1 = ctl\<lparr>received := received ctl + 1\<rparr> in
           if timeout ctl1 \<noteq> 0 \<and> received ctl1 = count ctl1 then (FINAL_PACKS, ctl1)
           else
             (let ctl2 = (if sll_pkttype FROM \<noteq> PACKET_HOST
                          then ctl1\<lparr>brd_recv := brd_recv ctl1 + 1\<rparr> else ctl1);
                  ctl3 = (if ar_op = htons ARPOP_REQUEST
                          then ctl2\<lparr>req_recv := req_recv ctl2 + 1\<rparr> else ctl2)
              in
              if quit_on_reply ctl3 \<or> (count ctl3 = 0 \<and> received ctl3 = sent ctl3)
              then (FINAL_PACKS, ctl3)
              else if \<not> broadcast_only ctl3 then
                (1, ctl3\<lparr>he := (he ctl3)\<lparr>sll_addr :=
                             take (unat (sll_halen (me ctl3))) (drop p buf) @
                             drop (unat (sll_halen (me ctl3))) (sll_addr (he ctl3))\<rparr>,
                         unicasting := True\<rparr>)
              else (1, ctl3)))))"

subsection \<open>\<^verbatim>\<open>check_ifflags\<close>\<close>

text \<open>
  A call either returns or ends the process through \<^verbatim>\<open>exit\<close>.
\<close>

datatype 'a call = Exit c_int | Return 'a

text \<open>Lines 544-563, with what the call prints.\<close>

definition check_ifflags :: "run_state \<Rightarrow> 32 word \<Rightarrow> printf_call list \<times> c_int call" where
  \<open>check_ifflags ctl ifflags =
    (if ifflags AND IFF_UP = 0 then
       (case name (device ctl) of
          Some n \<Rightarrow>
            ((if \<not> quiet ctl then [(''Interface "%s" is down\<newline>'', [ArgS n])] else []),
             Exit 2)
        | None \<Rightarrow> ([], Return (- 1)))
     else if ifflags AND (IFF_NOARP OR IFF_LOOPBACK) \<noteq> 0 then
       (case name (device ctl) of
          Some n \<Rightarrow>
            ((if \<not> quiet ctl then [(''Interface "%s" is not ARPable\<newline>'', [ArgS n])] else []),
             Exit (if dad ctl then 0 else 2))
        | None \<Rightarrow> ([], Return (- 1)))
     else ([], Return 0))\<close>

subsection \<open>The options of \<^verbatim>\<open>main\<close>\<close>

text \<open>
  Lines 1056-1064: the session \<^verbatim>\<open>main\<close> starts from, all zero but for \<^verbatim>\<open>count\<close> and
  \<^verbatim>\<open>interval\<close> (\<^verbatim>\<open>DEFAULT_DEVICE\<close> is \<^verbatim>\<open>NULL\<close> unless the build sets it). A
  \<^verbatim>\<open>struct sockaddr_storage\<close> has 128 bytes, 116 of them from \<^verbatim>\<open>sll_addr\<close> on.
\<close>

definition sockaddr_zero :: sockaddr_ll where
  "sockaddr_zero =
    \<lparr>sll_family = 0, sll_protocol = 0, sll_ifindex = 0, sll_hatype = 0,
     sll_pkttype = 0, sll_halen = 0, sll_addr = replicate 116 0\<rparr>"

definition main_init :: run_state where
  "main_init =
    \<lparr>device = \<lparr>name = None, ifindex = 0\<rparr>, source = None, gsrc = 0, gdst = 0,
     target = [], count = - 1, timeout = 0, interval = 1,
     me = sockaddr_zero, he = sockaddr_zero, last = \<lparr>tv_sec = 0, tv_nsec = 0\<rparr>,
     sent = 0, brd_sent = 0, received = 0, brd_recv = 0, req_recv = 0,
     advert = False, broadcast_only = False, dad = False, quiet = False,
     quit_on_reply = False, unicasting = False, unsolicited = False\<rparr>"

text \<open>
  One option as \<^verbatim>\<open>getopt\<close> returns it; \<open>Opt_c\<close>, \<open>Opt_w\<close> and \<open>Opt_i\<close> carry the value of
  \<^verbatim>\<open>atoi(optarg)\<close>, \<open>Opt_I\<close> and \<open>Opt_s\<close> the argument itself, \<open>Opt_h\<close> stands for
  \<^verbatim>\<open>-h\<close>, \<^verbatim>\<open>-?\<close> and every unknown option.
\<close>

datatype cli_option =
  Opt_b | Opt_D | Opt_U | Opt_A | Opt_q | Opt_c c_int | Opt_w c_int | Opt_i c_int |
  Opt_I string | Opt_f | Opt_s string | Opt_V | Opt_h

text \<open>Lines 1084-1127: the body of the \<^verbatim>\<open>switch\<close>; \<^verbatim>\<open>usage\<close> ends with \<^verbatim>\<open>exit(2)\<close>.\<close>

fun option_switch :: "cli_option \<Rightarrow> run_state \<Rightarrow> run_state call" where
  "option_switch Opt_b ctl = Return (ctl\<lparr>broadcast_only := True\<rparr>)"
| "option_switch Opt_D ctl = Return (ctl\<lparr>dad := True, quit_on_reply := True\<rparr>)"
| "option_switch Opt_U ctl = Return (ctl\<lparr>unsolicited := True\<rparr>)"
| "option_switch Opt_A ctl = Return (ctl\<lparr>advert := True, unsolicited := True\<rparr>)"
| "option_switch Opt_q ctl = Return (ctl\<lparr>quiet := True\<rparr>)"
| "option_switch (Opt_c n) ctl = Return (ctl\<lparr>count := n\<rparr>)"
| "option_switch (Opt_w n) ctl = Return (ctl\<lparr>timeout := n\<rparr>)"
| "option_switch (Opt_i n) ctl = Return (ctl\<lparr>interval := n\<rparr>)"
| "option_switch (Opt_I d) ctl = Return (ctl\<lparr>device := (device ctl)\<lparr>name := Some d\<rparr>\<rparr>)"
| "option_switch Opt_f ctl = Return (ctl\<lparr>quit_on_reply := True\<rparr>)"
| "option_switch (Opt_s a) ctl = Return (ctl\<lparr>source := Some a\<rparr>)"
| "option_switch Opt_V ctl = Exit 0"
| "option_switch Opt_h ctl = Exit 2"

text \<open>Line 1083: the \<^verbatim>\<open>while\<close> loop over the options of the command line.\<close>

fun parse_options :: "cli_option list \<Rightarrow> run_state \<Rightarrow> run_state call" where
  "parse_options [] ctl = Return ctl"
| "parse_options (ch # rest) ctl =
     (case option_switch ch ctl of
        Exit n \<Rightarrow> Exit n
      | Return ctl' \<Rightarrow> parse_options rest ctl')"

subsection \<open>\<^verbatim>\<open>event_loop\<close>\<close>

text \<open>
  What the kernel hands to one pass of the \<^verbatim>\<open>while\<close> loop. \<^verbatim>\<open>poll\<close> either fails (with
  an \<^verbatim>\<open>errno\<close>) or marks some of the three descriptors ready; for a ready descriptor the
  value says what the following \<^verbatim>\<open>read\<close> or \<^verbatim>\<open>recvfrom\<close> gives:
  \<^item> signal descriptor: a short read, or the signal number \<^verbatim>\<open>ssi_signo\<close>;
  \<^item> timer descriptor: a short read, or the expiration count, with the clock value and
    the result of \<^verbatim>\<open>sendto\<close> for the probe that may follow;
  \<^item> socket: a failure, or the packet array, the byte count and the sender's link-layer
    address. A failure carries two values of \<^verbatim>\<open>errno\<close>: the one \<^verbatim>\<open>recvfrom\<close> leaves, and
    the one that is there after \<^verbatim>\<open>perror\<close> has reported the failure. The C library may
    change \<^verbatim>\<open>errno\<close> in \<^verbatim>\<open>perror\<close> (glibc leaves \<^verbatim>\<open>EINVAL\<close> when the standard error
    stream is a write-only descriptor, a file or a pipe), and the source tests
    \<^verbatim>\<open>errno\<close> only after that call.
\<close>

datatype signal_read = SigShort | SigInfo "32 word"
datatype timer_read = TimerShort | TimerExp "64 word" timespec c_int
datatype socket_read = RecvErr c_int c_int | RecvOk "byte list" int sockaddr_ll
datatype wake = PollErr c_int | PollReady "signal_read option" "timer_read option" "socket_read option"

record loop_state =
  ls_ctl :: run_state
  exit_loop :: bool
  rc :: c_int
  total_expires :: "64 word"

text \<open>Lines 997-1008.\<close>

fun on_signal :: "signal_read \<Rightarrow> loop_state \<Rightarrow> loop_state" where
  "on_signal SigShort st = st"
| "on_signal (SigInfo signo) st =
     (if signo = SIGINT \<or> signo = SIGQUIT \<or> signo = SIGTERM
      then st\<lparr>exit_loop := True\<rparr> else st)"

text \<open>Lines 1009-1021; \<^verbatim>\<open>(uint64_t)ctl->count\<close> is the sign-extending cast.\<close>

fun on_timer :: "timer_read \<Rightarrow> loop_state \<Rightarrow> loop_state" where
  "on_timer TimerShort st = st"
| "on_timer (TimerExp exp now err) st =
     (let st1 = st\<lparr>total_expires := total_expires st + exp\<rparr> in
      if 0 < sint (count (ls_ctl st1)) \<and> scast (count (ls_ctl st1)) < total_expires st1
      then st1\<lparr>exit_loop := True\<rparr>
      else st1\<lparr>ls_ctl := snd (send_pack (ls_ctl st1) now err)\<rparr>)"

text \<open>
  Lines 1022-1034. On a failure line 1026 calls \<^verbatim>\<open>perror\<close> and line 1027 then tests
  \<^verbatim>\<open>errno\<close>: the value tested is \<open>errno_after_perror\<close>, not the one \<^verbatim>\<open>recvfrom\<close> left.
\<close>

fun on_socket :: "socket_read \<Rightarrow> loop_state \<Rightarrow> loop_state" where
  "on_socket (RecvErr errno_recvfrom errno_after_perror) st =
     (if errno_after_perror = ENETDOWN then st\<lparr>rc := 2\<rparr> else st)"
| "on_socket (RecvOk packet s from) st =
     (let r = recv_pack (ls_ctl st) packet s from;
          st1 = st\<lparr>ls_ctl := snd r\<rparr>
      in if fst r = FINAL_PACKS then st1\<lparr>exit_loop := True\<rparr> else st1)"

text \<open>
  Lines 983-1038: one pass of the \<^verbatim>\<open>while\<close> body. A failed \<^verbatim>\<open>poll\<close> is retried on
  \<^verbatim>\<open>EAGAIN\<close> and ends the loop otherwise; after a successful one the three descriptors
  are served in index order, all of them, whatever an earlier one did to \<^verbatim>\<open>exit_loop\<close>.
\<close>

fun wake_step :: "wake \<Rightarrow> loop_state \<Rightarrow> loop_state" where
  "wake_step (PollErr errno) st = (if errno = EAGAIN then st else st\<lparr>exit_loop := True\<rparr>)"
| "wake_step (PollReady sg tm sk) st =
     (let st1 = (case sg of None \<Rightarrow> st | Some r \<Rightarrow> on_signal r st);
          st2 = (case tm of None \<Rightarrow> st1 | Some r \<Rightarrow> on_timer r st1);
          st3 = (case sk of None \<Rightarrow> st2 | Some r \<Rightarrow> on_socket r st2)
      in st3)"

text \<open>
  Line 979: the \<^verbatim>\<open>while (!exit_loop)\<close> loop over the wake-ups the kernel delivers. The
  result is the state at loop exit and the number of wake-ups served. \<^verbatim>\<open>poll\<close> waits
  without a timeout, so when the wake-ups end before \<^verbatim>\<open>exit_loop\<close> is set the loop
  never returns: \<open>None\<close>.
\<close>

fun run_loop :: "loop_state \<Rightarrow> wake list \<Rightarrow> (loop_state \<times> nat) option" where
  "run_loop st [] = (if exit_loop st then Some (st, 0) else None)"
| "run_loop st (w # ws) =
     (if exit_loop st then Some (st, 0)
      else (case run_loop (wake_step w st) ws of
              None \<Rightarrow> None
            | Some (st', k) \<Rightarrow> Some (st', Suc k)))"

text \<open>
  Lines 910-1052. \<open>setup_ok\<close> says that the signal descriptor, the timer descriptor and
  the clock were set up (each failure there is \<^verbatim>\<open>return 1\<close>); \<open>now\<close> and \<open>err\<close> belong to
  the first probe, sent before the loop. The result is the value returned, the final
  session and the number of wake-ups served.
\<close>

definition event_loop ::
    "run_state \<Rightarrow> bool \<Rightarrow> timespec \<Rightarrow> c_int \<Rightarrow> wake list \<Rightarrow> (c_int \<times> run_state \<times> nat) option" where
  "event_loop ctl setup_ok now err wakes =
    (if \<not> setup_ok then Some (1, ctl, 0)
     else
       (let ctl1 = snd (send_pack ctl now err) in
        case run_loop \<lparr>ls_ctl = ctl1, exit_loop = False, rc = 0, total_expires = 1\<rparr> wakes of
          None \<Rightarrow> None
        | Some (st, k) \<Rightarrow>
            (let rc1 = rc st OR snd (finish (ls_ctl st));
                 rc2 = rc1 OR (if brd_sent (ls_ctl st) \<noteq> received (ls_ctl st) then 0 else 1)
             in Some (rc2, ls_ctl st, k))))"

section \<open>The frame as the specification reads it\<close>

text \<open>
  The wire format: the ARP header in network byte order, then the four addresses, the
  protocol addresses as they lie in a \<^verbatim>\<open>struct in_addr\<close>.
\<close>

record arp_frame =
  hardware_type :: "16 word"
  protocol_type :: "16 word"
  hardware_length :: byte
  protocol_length :: byte
  operation :: "16 word"
  sender_hw :: "byte list"
  sender_ip :: "32 word"
  target_hw :: "byte list"
  target_ip :: "32 word"

definition be16 :: "byte list \<Rightarrow> nat \<Rightarrow> 16 word" where
  "be16 buf off = push_bit 8 (ucast (buf ! off)) OR ucast (buf ! (off + 1))"

definition decode_frame :: "byte list \<Rightarrow> arp_frame" where
  "decode_frame buf =
    (let h = unat (buf ! 4) in
     \<lparr>hardware_type = be16 buf 0, protocol_type = be16 buf 2,
      hardware_length = buf ! 4, protocol_length = buf ! 5, operation = be16 buf 6,
      sender_hw = take h (drop 8 buf), sender_ip = load32 buf (8 + h),
      target_hw = take h (drop (8 + h + 4) buf), target_ip = load32 buf (8 + h + 4 + h)\<rparr>)"

text \<open>The hardware address of the local interface: the first \<open>sll_halen\<close> bytes.\<close>

definition own_hw :: "run_state \<Rightarrow> byte list" where
  "own_hw ctl = take (unat (sll_halen (me ctl))) (sll_addr (me ctl))"

text \<open>
  Structural validation: packet class one of unicast-to-me, broadcast, multicast;
  operation request or reply; hardware type that of the link, FDDI counting as
  Ethernet; protocol IPv4 with length 4; hardware length that of the local interface;
  and the frame not shorter than the header and the four addresses.
\<close>

definition structurally_valid :: "run_state \<Rightarrow> byte list \<Rightarrow> int \<Rightarrow> sockaddr_ll \<Rightarrow> bool" where
  "structurally_valid ctl buf len FROM =
    (let f = decode_frame buf in
     sll_pkttype FROM \<in> {PACKET_HOST, PACKET_BROADCAST, PACKET_MULTICAST} \<and>
     operation f \<in> {ARPOP_REQUEST, ARPOP_REPLY} \<and>
     (hardware_type f = sll_hatype FROM \<or>
      (sll_hatype FROM = ARPHRD_FDDI \<and> hardware_type f = ARPHRD_ETHER)) \<and>
     protocol_type f = ETH_P_IP \<and>
     protocol_length f = 4 \<and>
     hardware_length f = sll_halen (me ctl) \<and>
     8 + 2 * (4 + int (unat (hardware_length f))) \<le> len)"

text \<open>
  Normal mode: the sender protocol address is the configured target, the target
  protocol address the configured source, the target hardware address our own.
\<close>

definition normal_mode_valid :: "run_state \<Rightarrow> arp_frame \<Rightarrow> bool" where
  "normal_mode_valid ctl f =
    (sender_ip f = gdst ctl \<and> target_ip f = gsrc ctl \<and> target_hw f = own_hw ctl)"

text \<open>
  Duplicate address detection: the sender protocol address is the address under test,
  the sender hardware address is not our own, and a source address configured non-zero
  is the target protocol address of the frame.
\<close>

definition dad_mode_valid :: "run_state \<Rightarrow> arp_frame \<Rightarrow> bool" where
  "dad_mode_valid ctl f =
    (sender_ip f = gdst ctl \<and> sender_hw f \<noteq> own_hw ctl \<and>
     (gsrc ctl = 0 \<or> target_ip f = gsrc ctl))"

definition frame_accepted :: "run_state \<Rightarrow> byte list \<Rightarrow> int \<Rightarrow> sockaddr_ll \<Rightarrow> bool" where
  "frame_accepted ctl buf len FROM =
    (structurally_valid ctl buf len FROM \<and>
     (if dad ctl then dad_mode_valid ctl (decode_frame buf)
      else normal_mode_valid ctl (decode_frame buf)))"

text \<open>A receive attempt that fails with the network down, as one wake-up reports it.\<close>

fun netdown_wake :: "wake \<Rightarrow> bool" where
  "netdown_wake (PollReady sg tm (Some (RecvErr errno_recvfrom errno_after_perror))) =
     (errno_recvfrom = ENETDOWN)"
| "netdown_wake w = False"

text \<open>
  A receive attempt that fails and after whose report \<^verbatim>\<open>errno\<close> says that the network is
  down: what the loop can see of the former.
\<close>

fun netdown_tested_wake :: "wake \<Rightarrow> bool" where
  "netdown_tested_wake (PollReady sg tm (Some (RecvErr errno_recvfrom errno_after_perror))) =
     (errno_after_perror = ENETDOWN)"
| "netdown_tested_wake w = False"

text \<open>A wake-up in which \<^verbatim>\<open>perror\<close>, if it is called for the socket, leaves \<^verbatim>\<open>errno\<close> alone.\<close>

fun perror_keeps_errno :: "wake \<Rightarrow> bool" where
  "perror_keeps_errno (PollReady sg tm (Some (RecvErr errno_recvfrom errno_after_perror))) =
     (errno_after_perror = errno_recvfrom)"
| "perror_keeps_errno w = True"

text \<open>A wake-up that delivers one of the signals that end the loop.\<close>

fun term_signal_wake :: "wake \<Rightarrow> bool" where
  "term_signal_wake (PollReady (Some (SigInfo signo)) tm sk) =
     (signo = SIGINT \<or> signo = SIGQUIT \<or> signo = SIGTERM)"
| "term_signal_wake w = False"

section \<open>The three phases of \<^verbatim>\<open>recv_pack\<close>\<close>

text \<open>
  For the proofs \<open>recv_pack\<close> is cut where the source has its blank lines: the
  structural filter (lines 416-439), the mode-specific filter (lines 442-471) and the
  accounting (lines 501-515). \<open>recv_pack_phases\<close> below shows that the three pieces
  put together are \<open>recv_pack\<close>.
\<close>

definition structural_reject :: "run_state \<Rightarrow> byte list \<Rightarrow> int \<Rightarrow> sockaddr_ll \<Rightarrow> bool" where
  "structural_reject ctl buf len FROM =
    ((sll_pkttype FROM \<noteq> PACKET_HOST \<and>
      sll_pkttype FROM \<noteq> PACKET_BROADCAST \<and>
      sll_pkttype FROM \<noteq> PACKET_MULTICAST) \<or>
     (load16 buf 6 \<noteq> htons ARPOP_REQUEST \<and> load16 buf 6 \<noteq> htons ARPOP_REPLY) \<or>
     (load16 buf 0 \<noteq> htons (sll_hatype FROM) \<and>
      (sll_hatype FROM \<noteq> ARPHRD_FDDI \<or> load16 buf 0 \<noteq> htons ARPHRD_ETHER)) \<or>
     load16 buf 2 \<noteq> htons ETH_P_IP \<or>
     buf ! 5 \<noteq> 4 \<or>
     buf ! 4 \<noteq> sll_halen (me ctl) \<or>
     len < int sizeof_arphdr + 2 * (4 + int (unat (buf ! 4))))"

definition semantic_reject :: "run_state \<Rightarrow> byte list \<Rightarrow> bool" where
  "semantic_reject ctl buf =
    (if \<not> dad ctl then
       load32 buf (sizeof_arphdr + unat (buf ! 4)) \<noteq> gdst ctl \<or>
       gsrc ctl \<noteq> load32 buf (sizeof_arphdr + unat (buf ! 4) + 4 + unat (buf ! 4)) \<or>
       memcmp_ne buf (sizeof_arphdr + unat (buf ! 4) + 4) (sll_addr (me ctl)) (unat (buf ! 4))
     else
       load32 buf (sizeof_arphdr + unat (buf ! 4)) \<noteq> gdst ctl \<or>
       \<not> memcmp_ne buf sizeof_arphdr (sll_addr (me ctl)) (unat (sll_halen (me ctl))) \<or>
       (gsrc ctl \<noteq> 0 \<and>
        gsrc ctl \<noteq> load32 buf (sizeof_arphdr + unat (buf ! 4) + 4 + unat (buf ! 4))))"

definition account :: "run_state \<Rightarrow> byte list \<Rightarrow> sockaddr_ll \<Rightarrow> c_int \<times> run_state" where
  "account ctl buf FROM =
    (let ctl1 = ctl\<lparr>received := received ctl + 1\<rparr> in
     if timeout ctl1 \<noteq> 0 \<and> received ctl1 = count ctl1 then (FINAL_PACKS, ctl1)
     else
       (let ctl2 = (if sll_pkttype FROM \<noteq> PACKET_HOST
                    then ctl1\<lparr>brd_recv := brd_recv ctl1 + 1\<rparr> else ctl1);
            ctl3 = (if load16 buf 6 = htons ARPOP_REQUEST
                    then ctl2\<lparr>req_recv := req_recv ctl2 + 1\<rparr> else ctl2)
        in
        if quit_on_reply ctl3 \<or> (count ctl3 = 0 \<and> received ctl3 = sent ctl3)
        then (FINAL_PACKS, ctl3)
        else if \<not> broadcast_only ctl3 then
          (1, ctl3\<lparr>he := (he ctl3)\<lparr>sll_addr :=
                       take (unat (sll_halen (me ctl3))) (drop sizeof_arphdr buf) @
                       drop (unat (sll_halen (me ctl3))) (sll_addr (he ctl3))\<rparr>,
                   unicasting := True\<rparr>)
        else (1, ctl3)))"

section \<open>An example session\<close>

text \<open>
  Host 10.0.0.1 with the Ethernet address 02:00:00:00:00:01 asks for 10.0.0.2, which
  has 02:00:00:00:00:02. The session is the one of \<open>main_init\<close> after the first
  broadcast probe; \<open>example_reply\<close> is the answer of the other host as it arrives.
\<close>

definition example_me :: sockaddr_ll where
  "example_me =
    \<lparr>sll_family = 17, sll_protocol = 0x0608, sll_ifindex = 2, sll_hatype = 1,
     sll_pkttype = 0, sll_halen = 6,
     sll_addr = [0x02, 0, 0, 0, 0, 0x01] @ replicate 110 0\<rparr>"

definition example_he :: sockaddr_ll where
  "example_he = example_me\<lparr>sll_addr := replicate 6 0xFF @ replicate 110 0\<rparr>"

definition example_ctl :: run_state where
  "example_ctl =
    main_init\<lparr>gsrc := 0x0100000A, gdst := 0x0200000A, me := example_me, he := example_he,
              sent := 1, brd_sent := 1\<rparr>"

definition example_reply :: "byte list" where
  "example_reply =
    [0, 1, 8, 0, 6, 4, 0, 2,
     0x02, 0, 0, 0, 0, 0x02, 10, 0, 0, 2,
     0x02, 0, 0, 0, 0, 0x01, 10, 0, 0, 1]"

definition example_from :: sockaddr_ll where
  "example_from =
    \<lparr>sll_family = 17, sll_protocol = 0x0608, sll_ifindex = 2, sll_hatype = 1,
     sll_pkttype = 0, sll_halen = 6,
     sll_addr = [0x02, 0, 0, 0, 0, 0x02] @ replicate 110 0\<rparr>"

text \<open>The other host, for which \<open>example_ctl\<close> is the peer.\<close>

definition example_peer :: run_state where
  "example_peer =
    main_init\<lparr>gsrc := 0x0200000A, gdst := 0x0100000A,
              me := example_me\<lparr>sll_addr := [0x02, 0, 0, 0, 0, 0x02] @ replicate 110 0\<rparr>,
              he := example_me\<rparr>"

text \<open>
  Variations: the session in duplicate address detection mode (\<^verbatim>\<open>-D\<close>, no source
  address), the same frame as a request, a session with a timeout budget whose count
  the next response reaches, the frame as a broadcast, and the loop state around the
  session, with the default count and with \<^verbatim>\<open>-c 0\<close>.
\<close>

definition example_dad :: run_state where
  "example_dad = example_ctl\<lparr>dad := True, quit_on_reply := True, gsrc := 0\<rparr>"

definition example_request :: "byte list" where
  "example_request = example_reply[7 := 1]"

definition example_budget :: run_state where
  "example_budget = example_ctl\<lparr>timeout := 5, count := 1\<rparr>"

definition example_from_brd :: sockaddr_ll where
  "example_from_brd = example_from\<lparr>sll_pkttype := PACKET_BROADCAST\<rparr>"

definition example_loop :: loop_state where
  "example_loop = \<lparr>ls_ctl = example_ctl, exit_loop = False, rc = 0, total_expires = 1\<rparr>"

definition example_zero :: loop_state where
  "example_zero = example_loop\<lparr>ls_ctl := example_ctl\<lparr>count := 0\<rparr>\<rparr>"

text \<open>
  The session with the interface named on the command line, the session before its
  first probe, and three wake-ups: a receive attempt that finds the network down while
  the standard error stream goes to a file (so that \<^verbatim>\<open>perror\<close> leaves \<^verbatim>\<open>EINVAL\<close>), an
  interrupt, and the reply (which the loop no longer serves).
\<close>

definition example_named :: run_state where
  "example_named = example_ctl\<lparr>device := \<lparr>name = Some ''eth0'', ifindex = 2\<rparr>\<rparr>"

definition example_start :: run_state where
  "example_start = example_ctl\<lparr>sent := 0, brd_sent := 0\<rparr>"

definition example_wakes :: "wake list" where
  "example_wakes =
    [PollReady None None (Some (RecvErr ENETDOWN EINVAL)),
     PollReady (Some (SigInfo SIGINT)) None None,
     PollReady None None (Some (RecvOk example_reply 28 example_from))]"

text \<open>
  The invariant of a session with quit-on-first-reply set: the flag stays set, and the
  destination and the unicasting flag stay those of the session \<open>c0\<close> it started as.
\<close>

definition quit_inv :: "run_state \<Rightarrow> run_state \<Rightarrow> bool" where
  "quit_inv c0 c = (quit_on_reply c \<and> he c = he c0 \<and> unicasting c = unicasting c0)"

section \<open>Lemmas\<close>

subsection \<open>Byte order\<close>

lemma htons_htons: "htons (htons x) = x"
  unfolding htons_def
  by (rule bit_word_eqI) (auto simp: bit_simps)

lemma htons_eq_iff: "htons x = htons y \<longleftrightarrow> x = y"
  by (metis htons_htons)

lemma load16_be16: "load16 buf off = htons (be16 buf off)"
  unfolding htons_def load16_def be16_def
  by (rule bit_word_eqI) (auto simp: bit_simps dest: bit_imp_le_length)

lemma load16_eq_htons: "load16 buf off = htons v \<longleftrightarrow> be16 buf off = v"
  by (metis load16_be16 htons_htons)

subsection \<open>\<^verbatim>\<open>recv_pack\<close> and the specification's reading of a frame\<close>

lemma if_chain: "(if c then a else if d then a else b) = (if c \<or> d then a else b)"
  by simp

lemma recv_pack_phases:
  "recv_pack ctl buf len FROM =
     (if structural_reject ctl buf len FROM \<or> semantic_reject ctl buf then (0, ctl)
      else account ctl buf FROM)"
  by (simp only: recv_pack_def structural_reject_def semantic_reject_def account_def Let_def
        if_chain disj_assoc)

lemma structural_reject_iff:
  "structural_reject ctl buf len FROM \<longleftrightarrow> \<not> structurally_valid ctl buf len FROM"
  unfolding structurally_valid_def decode_frame_def Let_def load16_eq_htons sizeof_arphdr_def
    structural_reject_def
  by auto

lemma semantic_reject_iff:
  assumes "buf ! 4 = sll_halen (me ctl)"
  shows "semantic_reject ctl buf \<longleftrightarrow>
         \<not> (if dad ctl then dad_mode_valid ctl (decode_frame buf)
            else normal_mode_valid ctl (decode_frame buf))"
  using assms
  unfolding dad_mode_valid_def normal_mode_valid_def decode_frame_def Let_def memcmp_ne_def
    own_hw_def sizeof_arphdr_def semantic_reject_def
  by auto

lemma reject_iff:
  "structural_reject ctl buf len FROM \<or> semantic_reject ctl buf \<longleftrightarrow>
     \<not> frame_accepted ctl buf len FROM"
proof (cases "structural_reject ctl buf len FROM")
  case True
  then show ?thesis by (simp add: frame_accepted_def structural_reject_iff)
next
  case False
  then have "buf ! 4 = sll_halen (me ctl)" by (simp add: structural_reject_def)
  from semantic_reject_iff[OF this] False show ?thesis
    by (simp add: frame_accepted_def structural_reject_iff)
qed

lemma recv_pack_rejected:
  "\<not> frame_accepted ctl buf len FROM \<Longrightarrow> recv_pack ctl buf len FROM = (0, ctl)"
  by (simp add: recv_pack_phases reject_iff)

lemma recv_pack_account:
  "frame_accepted ctl buf len FROM \<Longrightarrow> recv_pack ctl buf len FROM = account ctl buf FROM"
  by (simp add: recv_pack_phases reject_iff)

subsection \<open>The accounting of an accepted frame\<close>

lemma account_received: "received (snd (account ctl buf FROM)) = received ctl + 1"
  by (simp add: account_def Let_def)

lemma account_fst:
  "fst (account ctl buf FROM) =
     (if (timeout ctl \<noteq> 0 \<and> received ctl + 1 = count ctl) \<or> quit_on_reply ctl \<or>
         (count ctl = 0 \<and> received ctl + 1 = sent ctl)
      then FINAL_PACKS else 1)"
  by (auto simp: account_def Let_def)

lemma account_final:
  "fst (account ctl buf FROM) = FINAL_PACKS \<Longrightarrow>
     he (snd (account ctl buf FROM)) = he ctl \<and>
     unicasting (snd (account ctl buf FROM)) = unicasting ctl"
  by (auto simp: account_def Let_def FINAL_PACKS_def split: if_splits)

lemma account_continue:
  "fst (account ctl buf FROM) = 1 \<Longrightarrow> \<not> broadcast_only ctl \<Longrightarrow>
     sll_addr (he (snd (account ctl buf FROM))) =
       take (unat (sll_halen (me ctl))) (drop sizeof_arphdr buf) @
       drop (unat (sll_halen (me ctl))) (sll_addr (he ctl)) \<and>
     unicasting (snd (account ctl buf FROM))"
  by (auto simp: account_def Let_def FINAL_PACKS_def split: if_splits)

lemma accepted_sender_hw:
  "frame_accepted ctl buf len FROM \<Longrightarrow>
     sender_hw (decode_frame buf) = take (unat (sll_halen (me ctl))) (drop sizeof_arphdr buf)"
  by (simp add: frame_accepted_def structurally_valid_def decode_frame_def Let_def
      sizeof_arphdr_def)

lemma account_nonzero: "fst (account ctl buf FROM) \<noteq> 0"
  by (simp add: account_fst FINAL_PACKS_def)

subsection \<open>The loop\<close>

lemma run_loop_exit: "exit_loop st \<Longrightarrow> run_loop st ws = Some (st, 0)"
  by (cases ws) simp_all

text \<open>
  The loop returns as soon as the kernel delivers an interrupt, a quit or a
  termination signal: the runs the properties below speak of exist for every session.
\<close>

lemma on_timer_exit: "exit_loop st \<Longrightarrow> exit_loop (on_timer r st)"
  by (cases r) (simp_all add: Let_def)

lemma on_socket_exit: "exit_loop st \<Longrightarrow> exit_loop (on_socket r st)"
  by (cases r) (simp_all add: Let_def)

lemma wake_step_term: "term_signal_wake w \<Longrightarrow> exit_loop (wake_step w st)"
proof (induction w rule: term_signal_wake.induct)
  case (1 signo tm sk)
  then have "exit_loop (on_signal (SigInfo signo) st)" by auto
  then show ?case
    by (cases tm; cases sk)
       (simp_all add: on_timer_exit on_socket_exit
          del: on_signal.simps on_timer.simps on_socket.simps)
qed simp_all

lemma run_loop_returns:
  "\<exists>w \<in> set ws. term_signal_wake w \<Longrightarrow> \<exists>r. run_loop st ws = Some r"
proof (induction ws arbitrary: st)
  case Nil
  then show ?case by simp
next
  case (Cons w ws)
  show ?case
  proof (cases "exit_loop st")
    case True
    then show ?thesis by simp
  next
    case False
    have "\<exists>r. run_loop (wake_step w st) ws = Some r"
    proof (cases "term_signal_wake w")
      case True
      from run_loop_exit[OF wake_step_term[OF this]] show ?thesis by blast
    next
      case False
      with Cons.prems have "\<exists>w \<in> set ws. term_signal_wake w" by simp
      then show ?thesis by (rule Cons.IH)
    qed
    then obtain st' k where "run_loop (wake_step w st) ws = Some (st', k)" by auto
    with False have "run_loop st (w # ws) = Some (st', Suc k)"
      by (simp del: wake_step.simps)
    then show ?thesis by blast
  qed
qed

lemma event_loop_returns:
  assumes "\<exists>w \<in> set wakes. term_signal_wake w"
  shows "\<exists>r. event_loop ctl setup_ok now err wakes = Some r"
proof (cases setup_ok)
  case False
  then show ?thesis by (simp add: event_loop_def)
next
  case True
  from run_loop_returns[OF assms] obtain st k where
    "run_loop \<lparr>ls_ctl = snd (send_pack ctl now err), exit_loop = False,
               rc = 0, total_expires = 1\<rparr> wakes = Some (st, k)"
    by fastforce
  with True show ?thesis by (simp add: event_loop_def Let_def)
qed

subsection \<open>Interface flags\<close>

lemma and_or_zero: "(x :: 32 word) AND (a OR b) \<noteq> 0 \<longleftrightarrow> x AND a \<noteq> 0 \<or> x AND b \<noteq> 0"
  by (simp add: bit.conj_disj_distrib or_eq_0_iff)

subsection \<open>Quit on the first reply\<close>

lemma option_switch_quit:
  "option_switch ch ctl = Return ctl' \<Longrightarrow> (dad ctl \<longrightarrow> quit_on_reply ctl) \<Longrightarrow>
     (dad ctl' \<longrightarrow> quit_on_reply ctl')"
  by (cases ch) auto

lemma parse_options_quit:
  "parse_options opts ctl = Return ctl' \<Longrightarrow> (dad ctl \<longrightarrow> quit_on_reply ctl) \<Longrightarrow>
     (dad ctl' \<longrightarrow> quit_on_reply ctl')"
proof (induction opts arbitrary: ctl)
  case Nil
  then show ?case by simp
next
  case (Cons ch rest)
  then show ?case
    by (auto split: call.splits dest: option_switch_quit)
qed

lemma account_quit:
  "quit_on_reply ctl \<Longrightarrow> fst (account ctl buf FROM) = FINAL_PACKS \<and>
     quit_on_reply (snd (account ctl buf FROM))"
  by (auto simp: account_def Let_def)

lemma recv_pack_quit:
  assumes "quit_on_reply ctl"
  shows "he (snd (recv_pack ctl buf len FROM)) = he ctl \<and>
         unicasting (snd (recv_pack ctl buf len FROM)) = unicasting ctl \<and>
         quit_on_reply (snd (recv_pack ctl buf len FROM))"
proof (cases "frame_accepted ctl buf len FROM")
  case True
  with account_quit[OF assms] account_final show ?thesis
    by (simp add: recv_pack_account)
next
  case False
  with assms show ?thesis by (simp add: recv_pack_rejected)
qed

lemma send_pack_keeps:
  "he (snd (send_pack ctl now err)) = he ctl \<and>
   unicasting (snd (send_pack ctl now err)) = unicasting ctl \<and>
   quit_on_reply (snd (send_pack ctl now err)) = quit_on_reply ctl"
  by (simp add: send_pack_def Let_def)

lemma on_signal_ctl: "ls_ctl (on_signal r st) = ls_ctl st"
  by (cases r) simp_all

lemma on_timer_inv: "quit_inv c0 (ls_ctl st) \<Longrightarrow> quit_inv c0 (ls_ctl (on_timer r st))"
  by (cases r) (simp_all add: Let_def quit_inv_def send_pack_keeps)

lemma on_socket_inv: "quit_inv c0 (ls_ctl st) \<Longrightarrow> quit_inv c0 (ls_ctl (on_socket r st))"
  by (cases r) (simp_all add: Let_def quit_inv_def recv_pack_quit)

lemma wake_step_inv: "quit_inv c0 (ls_ctl st) \<Longrightarrow> quit_inv c0 (ls_ctl (wake_step w st))"
  by (cases w) (auto simp: Let_def on_signal_ctl on_timer_inv on_socket_inv split: option.splits
       simp del: on_timer.simps on_socket.simps on_signal.simps)

lemma run_loop_inv:
  "run_loop st ws = Some (st', k) \<Longrightarrow> quit_inv c0 (ls_ctl st) \<Longrightarrow> quit_inv c0 (ls_ctl st')"
proof (induction ws arbitrary: st k)
  case Nil
  then show ?case by (simp split: if_splits)
next
  case (Cons w ws)
  show ?case
  proof (cases "exit_loop st")
    case True
    with Cons.prems show ?thesis by simp
  next
    case False
    with Cons.prems obtain k' where "run_loop (wake_step w st) ws = Some (st', k')"
      by (auto split: option.splits simp del: wake_step.simps)
    from Cons.IH[OF this wake_step_inv[OF Cons.prems(2)]] show ?thesis .
  qed
qed

subsection \<open>Encoding and decoding\<close>

lemma length_store16: "length (store16 x) = 2"
  by (simp add: store16_def)

lemma length_store32: "length (store32 x) = 4"
  by (simp add: store32_def)

lemma load16_store16: "load16 (store16 x @ r) 0 = x"
  unfolding load16_def store16_def
  by (simp, rule bit_word_eqI) (auto simp: bit_simps)

lemma be16_store16: "be16 (store16 (htons v) @ r) 0 = v"
proof -
  have "htons (be16 (store16 (htons v) @ r) 0) = htons v"
    using load16_store16[of "htons v" r] by (simp add: load16_be16)
  then show ?thesis by (simp add: htons_eq_iff)
qed

lemma load32_store32: "load32 (store32 x @ r) 0 = x"
  unfolding load32_def store32_def
  apply simp
  apply (rule bit_word_eqI)
  apply (auto simp: bit_simps)
  subgoal for n by (cases "24 \<le> n") auto
  done

lemma be16_skip: "length pre \<le> n \<Longrightarrow> be16 (pre @ r) n = be16 r (n - length pre)"
  by (simp add: be16_def nth_append Suc_diff_le)

lemma load32_skip: "length pre \<le> n \<Longrightarrow> load32 (pre @ r) n = load32 r (n - length pre)"
  by (simp add: load32_def nth_append Suc_diff_le)

lemma be16_skip_Cons: "0 < n \<Longrightarrow> be16 (x # r) n = be16 r (n - 1)"
  using be16_skip[of "[x]" n r] by simp

lemma load32_skip_Cons: "0 < n \<Longrightarrow> load32 (x # r) n = load32 r (n - 1)"
  using load32_skip[of "[x]" n r] by simp

lemma decode_send_pack:
  assumes "\<not> advert s"
    and "unat (sll_halen (me s)) \<le> length (sll_addr (me s))"
    and "unat (sll_halen (me s)) \<le> length (sll_addr (he s))"
  shows "decode_frame (send_pack_buf s @ rest) =
    \<lparr>hardware_type = (if sll_hatype (me s) = ARPHRD_FDDI then ARPHRD_ETHER else sll_hatype (me s)),
     protocol_type = ETH_P_IP,
     hardware_length = sll_halen (me s), protocol_length = 4,
     operation = ARPOP_REQUEST,
     sender_hw = own_hw s, sender_ip = gsrc s,
     target_hw = take (unat (sll_halen (me s))) (sll_addr (he s)), target_ip = gdst s\<rparr>"
  using assms
  unfolding decode_frame_def send_pack_buf_def Let_def own_hw_def
  by (simp add: be16_skip load32_skip be16_skip_Cons load32_skip_Cons drop_Cons' nth_append
      length_store16 length_store32 be16_store16 load32_store32 htons_eq_iff min_def)

lemma length_send_pack_buf:
  assumes "unat (sll_halen (me s)) \<le> length (sll_addr (me s))"
    and "unat (sll_halen (me s)) \<le> length (sll_addr (he s))"
  shows "length (send_pack_buf s) = 8 + 2 * (4 + unat (sll_halen (me s)))"
  using assms
  unfolding send_pack_buf_def Let_def
  by (simp add: length_store16 length_store32 min_def)

subsection \<open>The exit code of the loop\<close>

lemma rc_on_signal: "rc (on_signal r st) = rc st"
  by (cases r) simp_all

lemma rc_on_timer: "rc (on_timer r st) = rc st"
  by (cases r) (simp_all add: Let_def)

lemma rc_on_socket:
  "rc (on_socket r st) =
     (case r of RecvErr e e' \<Rightarrow> if e' = ENETDOWN then 2 else rc st | _ \<Rightarrow> rc st)"
  by (cases r) (simp_all add: Let_def)

lemma rc_wake_step: "rc (wake_step w st) = (if netdown_tested_wake w then 2 else rc st)"
proof (cases w)
  case (PollErr e)
  then show ?thesis by simp
next
  case (PollReady sg tm sk)
  show ?thesis
  proof (cases sk)
    case None
    with PollReady show ?thesis
      by (simp add: rc_on_signal rc_on_timer split: option.splits)
  next
    case (Some r)
    with PollReady show ?thesis
      by (cases r) (simp_all add: rc_on_signal rc_on_timer Let_def split: option.splits)
  qed
qed

lemma run_loop_rc:
  "run_loop st ws = Some (st', k) \<Longrightarrow>
     k \<le> length ws \<and>
     rc st' = (if \<exists>w \<in> set (take k ws). netdown_tested_wake w then 2 else rc st)"
proof (induction ws arbitrary: st k)
  case Nil
  then show ?case by (simp split: if_splits)
next
  case (Cons w ws)
  show ?case
  proof (cases "exit_loop st")
    case True
    with Cons.prems show ?thesis by simp
  next
    case False
    with Cons.prems obtain k' where r: "run_loop (wake_step w st) ws = Some (st', k')"
      and k: "k = Suc k'"
      by (auto split: option.splits simp del: wake_step.simps)
    from Cons.IH[OF r] show ?thesis
      unfolding k by (auto simp: rc_wake_step simp del: wake_step.simps)
  qed
qed

lemma finish_code: "snd (finish ctl) = 0 \<or> snd (finish ctl) = 1"
  by (simp add: finish_def)

text \<open>
  What \<open>event_loop\<close> returns: the code of \<open>finish\<close>, with 2 for a served receive failure
  after whose report \<^verbatim>\<open>errno\<close> was \<^verbatim>\<open>ENETDOWN\<close>, and with 1 when \<open>brd_sent\<close> equals
  \<open>received\<close>. Where \<^verbatim>\<open>perror\<close> leaves \<^verbatim>\<open>errno\<close> alone this is every receive attempt that
  failed with the network down.
\<close>

lemma event_loop_return_value:
  assumes "event_loop ctl setup_ok now err wakes = Some (ret, ctl', k)"
    and "setup_ok \<or> brd_sent ctl = received ctl"
  shows "ret = snd (finish ctl') OR
               (if \<exists>w \<in> set (take k wakes). netdown_tested_wake w then 2 else 0) OR
               (if brd_sent ctl' = received ctl' then 1 else 0)"
proof (cases setup_ok)
  case False
  with assms have "ret = 1" "ctl' = ctl" "k = 0" "brd_sent ctl = received ctl"
    by (simp_all add: event_loop_def)
  with finish_code[of ctl] show ?thesis by auto
next
  case True
  with assms(1) obtain st where
    r: "run_loop \<lparr>ls_ctl = snd (send_pack ctl now err), exit_loop = False,
                  rc = 0, total_expires = 1\<rparr> wakes = Some (st, k)"
    and c: "ctl' = ls_ctl st"
    and v: "ret = (rc st OR snd (finish (ls_ctl st))) OR
                  (if brd_sent (ls_ctl st) \<noteq> received (ls_ctl st) then 0 else 1)"
    by (auto simp: event_loop_def Let_def split: option.splits)
  from run_loop_rc[OF r]
  have "rc st = (if \<exists>w \<in> set (take k wakes). netdown_tested_wake w then 2 else 0)" by simp
  with v c show ?thesis by (simp add: ac_simps)
qed

lemma netdown_tested_kept:
  "perror_keeps_errno w \<Longrightarrow> netdown_tested_wake w = netdown_wake w"
  by (induction w rule: netdown_wake.induct) simp_all

lemma event_loop_return_value_kept:
  assumes "event_loop ctl True now err wakes = Some (ret, ctl', k)"
    and "\<forall>w \<in> set (take k wakes). perror_keeps_errno w"
  shows "ret = snd (finish ctl') OR
               (if \<exists>w \<in> set (take k wakes). netdown_wake w then 2 else 0) OR
               (if brd_sent ctl' = received ctl' then 1 else 0)"
proof -
  have "(\<exists>w \<in> set (take k wakes). netdown_tested_wake w) =
        (\<exists>w \<in> set (take k wakes). netdown_wake w)"
    using assms(2) netdown_tested_kept by blast
  with event_loop_return_value[OF assms(1)] show ?thesis by simp
qed

section \<open>Properties\<close>

subsection \<open>The exit code of \<^verbatim>\<open>finish\<close>\<close>

text \<open>
  Claim C1. For every final session state (the counter \<open>received\<close> counts responses, so
  it is not negative), the base exit code computed by \<open>finish\<close> is: in duplicate address
  detection mode, 0 if and only if \<open>received = 0\<close>, and non-zero for any \<open>received > 0\<close>;
  in unsolicited announcement mode (and not duplicate address detection), always 0
  whatever \<open>received\<close> is; otherwise 0 if and only if \<open>received \<ge> 1\<close>. The duplicate
  address detection test comes first: with both flags set the first rule applies.
\<close>

theorem finish_exit_code:
  assumes "0 \<le> sint (received ctl)"
  shows "(dad ctl \<longrightarrow>
            (snd (finish ctl) = 0 \<longleftrightarrow> received ctl = 0) \<and>
            (0 < sint (received ctl) \<longrightarrow> snd (finish ctl) \<noteq> 0)) \<and>
         (\<not> dad ctl \<and> unsolicited ctl \<longrightarrow> snd (finish ctl) = 0) \<and>
         (\<not> dad ctl \<and> \<not> unsolicited ctl \<longrightarrow>
            (snd (finish ctl) = 0 \<longleftrightarrow> 1 \<le> sint (received ctl)))"
proof -
  have pos: "received ctl \<noteq> 0 \<longleftrightarrow> 1 \<le> sint (received ctl)"
  proof
    assume "received ctl \<noteq> 0"
    then have "sint (received ctl) \<noteq> 0" by (simp add: signed_eq_0_iff)
    with assms show "1 \<le> sint (received ctl)" by linarith
  next
    assume "1 \<le> sint (received ctl)"
    then show "received ctl \<noteq> 0" by auto
  qed
  show ?thesis
    using pos by (auto simp: finish_def)
qed

theorem finish_exit_code_witness:
  "0 \<le> sint (received (example_ctl\<lparr>dad := True, received := 3\<rparr>)) \<and>
   dad (example_ctl\<lparr>dad := True, received := 3\<rparr>) \<and>
   snd (finish (example_ctl\<lparr>dad := True, received := 3\<rparr>)) \<noteq> 0 \<and>
   0 \<le> sint (received (example_ctl\<lparr>unsolicited := True, received := 3\<rparr>)) \<and>
   snd (finish (example_ctl\<lparr>unsolicited := True, received := 3\<rparr>)) = 0 \<and>
   0 \<le> sint (received example_ctl) \<and>
   \<not> dad example_ctl \<and> \<not> unsolicited example_ctl \<and>
   \<not> 1 \<le> sint (received example_ctl) \<and>
   snd (finish example_ctl) \<noteq> 0"
proof -
  have a: "0 \<le> sint (received (example_ctl\<lparr>dad := True, received := 3\<rparr>))"
    by (simp add: example_ctl_def main_init_def)
  have b: "0 \<le> sint (received (example_ctl\<lparr>unsolicited := True, received := 3\<rparr>))"
    by (simp add: example_ctl_def main_init_def)
  have c: "0 \<le> sint (received example_ctl)"
    by (simp add: example_ctl_def main_init_def)
  from finish_exit_code[OF a] finish_exit_code[OF b] finish_exit_code[OF c] a b c
  show ?thesis
    by (simp add: example_ctl_def main_init_def)
qed

subsection \<open>The effect of an accepted response\<close>

text \<open>
  Claim C4, as the code has it. For every response accepted by \<open>recv_pack\<close> the
  counter \<open>received\<close> grows by exactly one, and \<open>recv_pack\<close> returns 1 or
  \<open>FINAL_PACKS\<close>. When it returns 1 (the response does not end the session) and
  broadcast-only mode is not set, the first \<open>sll_halen\<close> bytes of the destination link
  address \<open>he\<close> are overwritten with the sender hardware address of the frame and the
  unicasting flag is set. When it returns \<open>FINAL_PACKS\<close> (the response ends the
  session) \<open>he\<close> and the unicasting flag are left as they were.
\<close>

theorem recv_pack_accepted_effect:
  assumes "frame_accepted ctl buf len FROM"
  shows "received (snd (recv_pack ctl buf len FROM)) = received ctl + 1 \<and>
         (fst (recv_pack ctl buf len FROM) = 1 \<or>
          fst (recv_pack ctl buf len FROM) = FINAL_PACKS) \<and>
         (fst (recv_pack ctl buf len FROM) = 1 \<and> \<not> broadcast_only ctl \<longrightarrow>
            sll_addr (he (snd (recv_pack ctl buf len FROM))) =
              sender_hw (decode_frame buf) @
              drop (unat (sll_halen (me ctl))) (sll_addr (he ctl)) \<and>
            unicasting (snd (recv_pack ctl buf len FROM))) \<and>
         (fst (recv_pack ctl buf len FROM) = FINAL_PACKS \<longrightarrow>
            he (snd (recv_pack ctl buf len FROM)) = he ctl \<and>
            unicasting (snd (recv_pack ctl buf len FROM)) = unicasting ctl)"
proof -
  have eq: "recv_pack ctl buf len FROM = account ctl buf FROM"
    using assms by (rule recv_pack_account)
  show ?thesis
    unfolding eq accepted_sender_hw[OF assms]
    using account_received account_final account_continue
    by (simp add: account_fst)
qed

theorem recv_pack_accepted_effect_witness:
  "frame_accepted example_ctl example_reply 28 example_from \<and>
   \<not> broadcast_only example_ctl \<and>
   fst (recv_pack example_ctl example_reply 28 example_from) = 1 \<and>
   received (snd (recv_pack example_ctl example_reply 28 example_from)) = 1 \<and>
   take 6 (sll_addr (he (snd (recv_pack example_ctl example_reply 28 example_from)))) =
     [0x02, 0, 0, 0, 0, 0x02] \<and>
   unicasting (snd (recv_pack example_ctl example_reply 28 example_from))"
proof -
  have a: "frame_accepted example_ctl example_reply 28 example_from" by code_simp
  have b: "fst (recv_pack example_ctl example_reply 28 example_from) = 1" by code_simp
  have c: "\<not> broadcast_only example_ctl" by code_simp
  have d: "received example_ctl + 1 = 1" by code_simp
  have e: "sender_hw (decode_frame example_reply) = [0x02, 0, 0, 0, 0, 0x02]" by code_simp
  from recv_pack_accepted_effect[OF a] a b c d e show ?thesis by simp
qed

text \<open>
  The claim as it was stated has the destination updated on every accepted response,
  also one that ends the session. With quit-on-first-reply set, the reply of the
  example is accepted, the session is neither broadcast-only nor unicasting, and
  afterwards the unicasting flag is still unset and \<open>he\<close> does not hold the sender's
  hardware address.
\<close>

theorem accepted_final_counterexample:
  "frame_accepted (example_ctl\<lparr>quit_on_reply := True\<rparr>) example_reply 28 example_from \<and>
   \<not> broadcast_only (example_ctl\<lparr>quit_on_reply := True\<rparr>) \<and>
   \<not> unicasting (example_ctl\<lparr>quit_on_reply := True\<rparr>) \<and>
   \<not> unicasting
      (snd (recv_pack (example_ctl\<lparr>quit_on_reply := True\<rparr>) example_reply 28 example_from)) \<and>
   take 6 (sll_addr (he (snd (recv_pack (example_ctl\<lparr>quit_on_reply := True\<rparr>)
                               example_reply 28 example_from))))
     \<noteq> sender_hw (decode_frame example_reply)"
  by code_simp

subsection \<open>Acceptance in duplicate address detection mode\<close>

text \<open>
  Claim C5. In duplicate address detection mode a structurally valid frame is accepted
  by \<open>recv_pack\<close> (the value returned is not the ignore result 0) if and only if its
  sender protocol address is the tested target address, its sender hardware address
  differs from the hardware address of the local interface, and the configured source
  address is zero or is the target protocol address of the frame. In particular a frame
  that carries the local hardware address as its sender is rejected and changes
  nothing.
\<close>

theorem dad_acceptance:
  assumes "dad ctl" and "structurally_valid ctl buf len FROM"
  shows "(fst (recv_pack ctl buf len FROM) \<noteq> 0 \<longleftrightarrow>
            sender_ip (decode_frame buf) = gdst ctl \<and>
            sender_hw (decode_frame buf) \<noteq> own_hw ctl \<and>
            (gsrc ctl = 0 \<or> target_ip (decode_frame buf) = gsrc ctl)) \<and>
         (sender_hw (decode_frame buf) = own_hw ctl \<longrightarrow>
            recv_pack ctl buf len FROM = (0, ctl))"
proof -
  have acc: "frame_accepted ctl buf len FROM \<longleftrightarrow>
               sender_ip (decode_frame buf) = gdst ctl \<and>
               sender_hw (decode_frame buf) \<noteq> own_hw ctl \<and>
               (gsrc ctl = 0 \<or> target_ip (decode_frame buf) = gsrc ctl)"
    using assms by (simp add: frame_accepted_def dad_mode_valid_def)
  have ret: "fst (recv_pack ctl buf len FROM) \<noteq> 0 \<longleftrightarrow> frame_accepted ctl buf len FROM"
    by (cases "frame_accepted ctl buf len FROM")
       (simp_all add: recv_pack_account recv_pack_rejected account_nonzero)
  have own: "recv_pack ctl buf len FROM = (0, ctl)"
    if "sender_hw (decode_frame buf) = own_hw ctl"
    using that acc by (simp add: recv_pack_rejected)
  show ?thesis
    using acc ret own by blast
qed

theorem dad_acceptance_witness:
  "dad example_dad \<and> structurally_valid example_dad example_reply 28 example_from \<and>
   sender_ip (decode_frame example_reply) = gdst example_dad \<and>
   sender_hw (decode_frame example_reply) \<noteq> own_hw example_dad \<and>
   gsrc example_dad = 0 \<and>
   fst (recv_pack example_dad example_reply 28 example_from) \<noteq> 0"
proof -
  have a: "dad example_dad" by code_simp
  have b: "structurally_valid example_dad example_reply 28 example_from" by code_simp
  have c: "sender_ip (decode_frame example_reply) = gdst example_dad \<and>
           sender_hw (decode_frame example_reply) \<noteq> own_hw example_dad \<and>
           gsrc example_dad = 0"
    by code_simp
  from dad_acceptance[OF a b] a b c show ?thesis by simp
qed

subsection \<open>Rejected frames\<close>

text \<open>
  Claim C6. For every frame that \<open>recv_pack\<close> rejects, in particular every frame whose
  ARP hardware length differs from the hardware length of the local interface, and more
  generally every frame that fails a structural or a mode-specific check, \<open>recv_pack\<close>
  returns the ignore result 0 and the session it leaves is the session it found: the
  counters \<open>sent\<close>, \<open>brd_sent\<close>, \<open>received\<close>, \<open>brd_recv\<close> and \<open>req_recv\<close>, the
  destination link address \<open>he\<close> and the unicasting flag are all unchanged.
\<close>

theorem rejected_frame_ignored:
  assumes "hardware_length (decode_frame buf) \<noteq> sll_halen (me ctl) \<or>
           \<not> frame_accepted ctl buf len FROM"
  shows "recv_pack ctl buf len FROM = (0, ctl)"
proof -
  have "\<not> frame_accepted ctl buf len FROM"
    using assms by (auto simp: frame_accepted_def structurally_valid_def Let_def)
  then show ?thesis by (rule recv_pack_rejected)
qed

theorem rejected_frame_ignored_witness:
  "hardware_length (decode_frame (example_reply[4 := 8])) \<noteq> sll_halen (me example_ctl) \<and>
   recv_pack example_ctl (example_reply[4 := 8]) 28 example_from = (0, example_ctl)"
proof -
  have a: "hardware_length (decode_frame (example_reply[4 := 8])) \<noteq> sll_halen (me example_ctl)"
    by code_simp
  from rejected_frame_ignored[of "example_reply[4 := 8]" example_ctl 28 example_from] a
  show ?thesis by simp
qed

subsection \<open>The response that exhausts the count\<close>

text \<open>
  Claim C10. When a timeout budget is configured (\<open>timeout\<close> is not zero) and an
  accepted frame makes \<open>received\<close> equal to the configured count, \<open>recv_pack\<close> returns
  \<open>FINAL_PACKS\<close> with \<open>received\<close> incremented and nothing else changed: \<open>brd_recv\<close> and
  \<open>req_recv\<close> are not incremented, whatever the class and the operation of the frame.
  That last frame is counted in the responses of the summary and left out of its
  breakdown: if no broadcast and no request had been counted before, the summary
  printed by \<open>finish\<close> has no breakdown at all.
\<close>

theorem final_on_count_skips_breakdown:
  assumes "frame_accepted ctl buf len FROM"
    and "timeout ctl \<noteq> 0" and "received ctl + 1 = count ctl"
  shows "recv_pack ctl buf len FROM = (FINAL_PACKS, ctl\<lparr>received := received ctl + 1\<rparr>) \<and>
         brd_recv (snd (recv_pack ctl buf len FROM)) = brd_recv ctl \<and>
         req_recv (snd (recv_pack ctl buf len FROM)) = req_recv ctl \<and>
         (\<not> quiet ctl \<and> brd_recv ctl = 0 \<and> req_recv ctl = 0 \<longrightarrow>
            fst (finish (snd (recv_pack ctl buf len FROM))) =
              [(''Sent %d probes (%d broadcast(s))\<newline>'',
                [ArgD (sent ctl), ArgD (brd_sent ctl)]),
               (''Received %d response(s)'', [ArgD (received ctl + 1)]),
               (''\<newline>'', [])])"
proof -
  have eq: "recv_pack ctl buf len FROM = (FINAL_PACKS, ctl\<lparr>received := received ctl + 1\<rparr>)"
    using assms by (simp add: recv_pack_account account_def Let_def)
  show ?thesis
    unfolding eq by (simp add: finish_def)
qed

theorem final_on_count_skips_breakdown_witness:
  "frame_accepted example_budget example_request 28 example_from_brd \<and>
   timeout example_budget \<noteq> 0 \<and>
   received example_budget + 1 = count example_budget \<and>
   sll_pkttype example_from_brd \<noteq> PACKET_HOST \<and>
   operation (decode_frame example_request) = ARPOP_REQUEST \<and>
   fst (recv_pack example_budget example_request 28 example_from_brd) = FINAL_PACKS \<and>
   received (snd (recv_pack example_budget example_request 28 example_from_brd)) = 1 \<and>
   brd_recv (snd (recv_pack example_budget example_request 28 example_from_brd)) = 0 \<and>
   req_recv (snd (recv_pack example_budget example_request 28 example_from_brd)) = 0"
proof -
  have a: "frame_accepted example_budget example_request 28 example_from_brd" by code_simp
  have b: "timeout example_budget \<noteq> 0" by code_simp
  have c: "received example_budget + 1 = count example_budget" by code_simp
  have d: "sll_pkttype example_from_brd \<noteq> PACKET_HOST \<and>
           operation (decode_frame example_request) = ARPOP_REQUEST"
    by code_simp
  have e: "brd_recv example_budget = 0 \<and> req_recv example_budget = 0 \<and>
           received example_budget + 1 = 1"
    by code_simp
  from final_on_count_skips_breakdown[OF a b c]
  have "fst (recv_pack example_budget example_request 28 example_from_brd) = FINAL_PACKS \<and>
        received (snd (recv_pack example_budget example_request 28 example_from_brd)) =
          received example_budget + 1 \<and>
        brd_recv (snd (recv_pack example_budget example_request 28 example_from_brd)) =
          brd_recv example_budget \<and>
        req_recv (snd (recv_pack example_budget example_request 28 example_from_brd)) =
          req_recv example_budget"
    by simp
  with a b c d e show ?thesis by simp
qed

subsection \<open>Every probe answered\<close>

text \<open>
  Claim C3, as the code has it. For every session with probe count equal to 0, an
  accepted response that makes \<open>received\<close> equal to \<open>sent\<close> causes \<open>recv_pack\<close> to
  return \<open>FINAL_PACKS\<close> at once, so that the loop ends on that reply: it serves the
  wake-up that delivers the frame and returns, whatever wake-ups (timer ticks among
  them) would follow and also when none follows.
\<close>

theorem zero_count_terminates:
  assumes "count (ls_ctl st) = 0"
    and "frame_accepted (ls_ctl st) buf len FROM"
    and "received (ls_ctl st) + 1 = sent (ls_ctl st)"
    and "\<not> exit_loop st"
  shows "fst (recv_pack (ls_ctl st) buf len FROM) = FINAL_PACKS \<and>
         exit_loop (on_socket (RecvOk buf len FROM) st) \<and>
         run_loop st (PollReady None None (Some (RecvOk buf len FROM)) # ws) =
           Some (on_socket (RecvOk buf len FROM) st, 1)"
proof -
  have f: "fst (recv_pack (ls_ctl st) buf len FROM) = FINAL_PACKS"
    using assms by (simp add: recv_pack_account account_fst)
  then have e: "exit_loop (on_socket (RecvOk buf len FROM) st)"
    by (simp add: Let_def)
  have "run_loop st (PollReady None None (Some (RecvOk buf len FROM)) # ws) =
          (case run_loop (on_socket (RecvOk buf len FROM) st) ws of
             None \<Rightarrow> None | Some (st', k) \<Rightarrow> Some (st', Suc k))"
    using assms(4) by (simp del: on_socket.simps)
  also have "\<dots> = Some (on_socket (RecvOk buf len FROM) st, 1)"
    by (simp add: run_loop_exit[OF e] del: on_socket.simps)
  finally show ?thesis using f e by (simp del: on_socket.simps)
qed

theorem zero_count_terminates_witness:
  "count (ls_ctl example_zero) = 0 \<and>
   frame_accepted (ls_ctl example_zero) example_reply 28 example_from \<and>
   received (ls_ctl example_zero) + 1 = sent (ls_ctl example_zero) \<and>
   \<not> exit_loop example_zero \<and>
   fst (recv_pack (ls_ctl example_zero) example_reply 28 example_from) = FINAL_PACKS \<and>
   run_loop example_zero [PollReady None None (Some (RecvOk example_reply 28 example_from))] =
     Some (on_socket (RecvOk example_reply 28 example_from) example_zero, 1)"
proof -
  have a: "count (ls_ctl example_zero) = 0" by code_simp
  have b: "frame_accepted (ls_ctl example_zero) example_reply 28 example_from" by code_simp
  have c: "received (ls_ctl example_zero) + 1 = sent (ls_ctl example_zero)" by code_simp
  have d: "\<not> exit_loop example_zero" by code_simp
  from zero_count_terminates[OF a b c d, of "[]"] a b c d show ?thesis
    by (simp del: on_socket.simps)
qed

text \<open>
  The claim as it was stated covers every count that is not positive. With the default
  count of \<open>main_init\<close>, which is -1, one probe sent and the matching reply accepted,
  \<open>recv_pack\<close> does not return \<open>FINAL_PACKS\<close>, and the loop that is given this reply and
  nothing else does not return.
\<close>

theorem negative_count_counterexample:
  "sint (count (ls_ctl example_loop)) \<le> 0 \<and>
   frame_accepted (ls_ctl example_loop) example_reply 28 example_from \<and>
   received (ls_ctl example_loop) + 1 = sent (ls_ctl example_loop) \<and>
   fst (recv_pack (ls_ctl example_loop) example_reply 28 example_from) \<noteq> FINAL_PACKS \<and>
   run_loop example_loop [PollReady None None (Some (RecvOk example_reply 28 example_from))] =
     None"
  by code_simp

subsection \<open>Interface flags\<close>

text \<open>
  Claim C8. For every interface flag check with an interface name supplied: if the named
  interface is down, the process ends with exit status 2; if it is up but not ARPable
  (\<^verbatim>\<open>IFF_NOARP\<close> or \<^verbatim>\<open>IFF_LOOPBACK\<close>), the process ends at once, with status 0 in
  duplicate address detection mode and status 2 otherwise. The test for down comes
  first, as in the claim. Without a name the same flag failures are not fatal:
  \<open>check_ifflags\<close> returns -1, on which every caller skips the candidate. An interface
  that is up and ARPable passes with 0.
\<close>

theorem check_ifflags_outcome:
  "(name (device ctl) \<noteq> None \<and> ifflags AND IFF_UP = 0 \<longrightarrow>
      snd (check_ifflags ctl ifflags) = Exit 2) \<and>
   (name (device ctl) \<noteq> None \<and> ifflags AND IFF_UP \<noteq> 0 \<and>
    (ifflags AND IFF_NOARP \<noteq> 0 \<or> ifflags AND IFF_LOOPBACK \<noteq> 0) \<longrightarrow>
      snd (check_ifflags ctl ifflags) = Exit (if dad ctl then 0 else 2)) \<and>
   (name (device ctl) = None \<and>
    (ifflags AND IFF_UP = 0 \<or> ifflags AND IFF_NOARP \<noteq> 0 \<or> ifflags AND IFF_LOOPBACK \<noteq> 0) \<longrightarrow>
      snd (check_ifflags ctl ifflags) = Return (- 1)) \<and>
   (ifflags AND IFF_UP \<noteq> 0 \<and> ifflags AND IFF_NOARP = 0 \<and> ifflags AND IFF_LOOPBACK = 0 \<longrightarrow>
      snd (check_ifflags ctl ifflags) = Return 0)"
  by (auto simp: check_ifflags_def and_or_zero split: option.splits)

theorem check_ifflags_outcome_witness:
  "name (device example_named) \<noteq> None \<and>
   snd (check_ifflags example_named 0x1002) = Exit 2 \<and>
   snd (check_ifflags example_named 0x1083) = Exit 2 \<and>
   snd (check_ifflags (example_named\<lparr>dad := True\<rparr>) 0x1083) = Exit 0 \<and>
   snd (check_ifflags (example_named\<lparr>dad := True\<rparr>) 0x0049) = Exit 0 \<and>
   snd (check_ifflags (example_named\<lparr>dad := True\<rparr>) 0x1082) = Exit 2 \<and>
   name (device example_ctl) = None \<and>
   snd (check_ifflags example_ctl 0x1002) = Return (- 1) \<and>
   snd (check_ifflags example_ctl 0x0049) = Return (- 1)"
proof -
  have n: "name (device example_named) \<noteq> None" "name (device (example_named\<lparr>dad := True\<rparr>)) \<noteq> None"
    "name (device example_ctl) = None" "dad (example_named\<lparr>dad := True\<rparr>)" "\<not> dad example_named"
    by code_simp+
  have f: "(0x1002 :: 32 word) AND IFF_UP = 0" "(0x1083 :: 32 word) AND IFF_UP \<noteq> 0"
    "(0x1083 :: 32 word) AND IFF_NOARP \<noteq> 0" "(0x0049 :: 32 word) AND IFF_UP \<noteq> 0"
    "(0x0049 :: 32 word) AND IFF_LOOPBACK \<noteq> 0" "(0x1082 :: 32 word) AND IFF_UP = 0"
    by (simp_all add: IFF_UP_def IFF_NOARP_def IFF_LOOPBACK_def)
  from check_ifflags_outcome[of example_named "0x1002"]
       check_ifflags_outcome[of example_named "0x1083"]
       check_ifflags_outcome[of "example_named\<lparr>dad := True\<rparr>" "0x1083"]
       check_ifflags_outcome[of "example_named\<lparr>dad := True\<rparr>" "0x0049"]
       check_ifflags_outcome[of "example_named\<lparr>dad := True\<rparr>" "0x1082"]
       check_ifflags_outcome[of example_ctl "0x1002"]
       check_ifflags_outcome[of example_ctl "0x0049"]
       n f
  show ?thesis by simp
qed

subsection \<open>Quit on the first reply\<close>

text \<open>
  Claim C9. Whenever the quit-on-first-reply flag is set, which includes duplicate
  address detection mode since the option \<^verbatim>\<open>-D\<close> sets both flags, \<open>recv_pack\<close> returns
  \<open>FINAL_PACKS\<close> for every accepted frame, before the code that switches from broadcast
  to unicast is reached; so no frame modifies the destination link address \<open>he\<close> or the
  unicasting flag, and at the end of the whole loop both are what they were when the
  session started.
\<close>

theorem quit_on_reply_keeps_destination:
  "(parse_options opts main_init = Return ctl0 \<and> dad ctl0 \<longrightarrow> quit_on_reply ctl0) \<and>
   (quit_on_reply ctl \<longrightarrow>
      (frame_accepted ctl buf len FROM \<longrightarrow> fst (recv_pack ctl buf len FROM) = FINAL_PACKS) \<and>
      he (snd (recv_pack ctl buf len FROM)) = he ctl \<and>
      unicasting (snd (recv_pack ctl buf len FROM)) = unicasting ctl) \<and>
   (quit_on_reply ctl \<and> event_loop ctl setup_ok now err wakes = Some (ret, ctl', k) \<longrightarrow>
      he ctl' = he ctl \<and> unicasting ctl' = unicasting ctl)"
proof -
  have p1: "quit_on_reply ctl0" if "parse_options opts main_init = Return ctl0" "dad ctl0"
    using parse_options_quit[OF that(1)] that(2) by (simp add: main_init_def)
  have p2: "fst (recv_pack ctl buf len FROM) = FINAL_PACKS"
    if "quit_on_reply ctl" "frame_accepted ctl buf len FROM"
    using that account_quit by (simp add: recv_pack_account)
  have p3: "he ctl' = he ctl \<and> unicasting ctl' = unicasting ctl"
    if q: "quit_on_reply ctl" and e: "event_loop ctl setup_ok now err wakes = Some (ret, ctl', k)"
  proof (cases setup_ok)
    case False
    with e show ?thesis by (simp add: event_loop_def)
  next
    case True
    from q have i: "quit_inv ctl (ls_ctl \<lparr>ls_ctl = snd (send_pack ctl now err), exit_loop = False,
        rc = 0, total_expires = 1\<rparr>)"
      by (simp add: quit_inv_def send_pack_keeps)
    from e True obtain st where
      r: "run_loop \<lparr>ls_ctl = snd (send_pack ctl now err), exit_loop = False,
        rc = 0, total_expires = 1\<rparr> wakes = Some (st, k)" and c: "ctl' = ls_ctl st"
      by (auto simp: event_loop_def Let_def split: option.splits)
    from run_loop_inv[OF r i] c show ?thesis by (simp add: quit_inv_def)
  qed
  show ?thesis using p1 p2 p3 recv_pack_quit by blast
qed

theorem quit_on_reply_keeps_destination_witness:
  "parse_options [Opt_q, Opt_D] main_init =
     Return (main_init\<lparr>quiet := True, dad := True, quit_on_reply := True\<rparr>) \<and>
   quit_on_reply (main_init\<lparr>quiet := True, dad := True, quit_on_reply := True\<rparr>) \<and>
   quit_on_reply example_dad \<and>
   frame_accepted example_dad example_reply 28 example_from \<and>
   fst (recv_pack example_dad example_reply 28 example_from) = FINAL_PACKS \<and>
   he (snd (recv_pack example_dad example_reply 28 example_from)) = he example_dad \<and>
   \<not> unicasting (snd (recv_pack example_dad example_reply 28 example_from)) \<and>
   event_loop example_dad True \<lparr>tv_sec = 1, tv_nsec = 0\<rparr> 28
      [PollReady None None (Some (RecvOk example_reply 28 example_from))] =
     Some (1, snd (recv_pack (snd (send_pack example_dad \<lparr>tv_sec = 1, tv_nsec = 0\<rparr> 28))
                     example_reply 28 example_from), 1) \<and>
   he (snd (recv_pack (snd (send_pack example_dad \<lparr>tv_sec = 1, tv_nsec = 0\<rparr> 28))
              example_reply 28 example_from)) = he example_dad"
proof -
  have a: "parse_options [Opt_q, Opt_D] main_init =
     Return (main_init\<lparr>quiet := True, dad := True, quit_on_reply := True\<rparr>)"
    by code_simp
  have b: "dad (main_init\<lparr>quiet := True, dad := True, quit_on_reply := True\<rparr>)"
    by simp
  have c: "quit_on_reply example_dad" by code_simp
  have d: "frame_accepted example_dad example_reply 28 example_from" by code_simp
  have e: "event_loop example_dad True \<lparr>tv_sec = 1, tv_nsec = 0\<rparr> 28
      [PollReady None None (Some (RecvOk example_reply 28 example_from))] =
     Some (1, snd (recv_pack (snd (send_pack example_dad \<lparr>tv_sec = 1, tv_nsec = 0\<rparr> 28))
                     example_reply 28 example_from), 1)"
    by code_simp
  have f: "\<not> unicasting example_dad" by code_simp
  from quit_on_reply_keeps_destination[of "[Opt_q, Opt_D]"
         "main_init\<lparr>quiet := True, dad := True, quit_on_reply := True\<rparr>"
         example_dad example_reply 28 example_from True "\<lparr>tv_sec = 1, tv_nsec = 0\<rparr>" 28
         "[PollReady None None (Some (RecvOk example_reply 28 example_from))]" 1
         "snd (recv_pack (snd (send_pack example_dad \<lparr>tv_sec = 1, tv_nsec = 0\<rparr> 28))
                example_reply 28 example_from)" 1]
       a b c d e f
  show ?thesis by simp
qed

subsection \<open>Round trip of a request\<close>

text \<open>
  Claim C7. For every source and destination protocol address and every hardware
  length (the hardware addresses lying inside the socket address storage), the wire
  buffer that \<open>send_pack\<close> produces for a request (advertise mode off), decoded by
  \<open>recv_pack\<close> against the mirrored configuration (destination and source protocol
  address swapped, normal mode, the same hardware length, the target hardware address
  of the frame the receiver's own), passes the structural and the semantic validation
  and is accepted. The frame arrives as the kernel delivers one: in the caller's
  packet array (followed there by whatever \<open>rest\<close> the array holds), with its length,
  with one of the three packet classes and with the hardware type of the link.
\<close>

theorem request_round_trip:
  assumes "\<not> advert s"
    and "unat (sll_halen (me s)) \<le> length (sll_addr (me s))"
    and "unat (sll_halen (me s)) \<le> length (sll_addr (he s))"
    and "\<not> dad r" and "gsrc r = gdst s" and "gdst r = gsrc s"
    and "sll_halen (me r) = sll_halen (me s)"
    and "take (unat (sll_halen (me s))) (sll_addr (he s)) = own_hw r"
    and "sll_pkttype FROM \<in> {PACKET_HOST, PACKET_BROADCAST, PACKET_MULTICAST}"
    and "sll_hatype FROM = sll_hatype (me s)"
  shows "frame_accepted r (send_pack_buf s @ rest) (int (length (send_pack_buf s))) FROM \<and>
         fst (recv_pack r (send_pack_buf s @ rest) (int (length (send_pack_buf s))) FROM) \<noteq> 0"
proof -
  note d = decode_send_pack[OF assms(1-3)]
  note l = length_send_pack_buf[OF assms(2,3)]
  have sv: "structurally_valid r (send_pack_buf s @ rest) (int (length (send_pack_buf s))) FROM"
    unfolding structurally_valid_def Let_def d l
    using assms(7,9,10) by simp
  have nm: "normal_mode_valid r (decode_frame (send_pack_buf s @ rest))"
    unfolding normal_mode_valid_def d using assms(5,6,8) by simp
  have acc: "frame_accepted r (send_pack_buf s @ rest) (int (length (send_pack_buf s))) FROM"
    using sv nm assms(4) by (simp add: frame_accepted_def)
  then show ?thesis by (simp add: recv_pack_account account_nonzero)
qed

theorem request_round_trip_witness:
  "\<not> advert example_peer \<and>
   unat (sll_halen (me example_peer)) \<le> length (sll_addr (me example_peer)) \<and>
   unat (sll_halen (me example_peer)) \<le> length (sll_addr (he example_peer)) \<and>
   \<not> dad example_ctl \<and> gsrc example_ctl = gdst example_peer \<and>
   gdst example_ctl = gsrc example_peer \<and>
   sll_halen (me example_ctl) = sll_halen (me example_peer) \<and>
   take (unat (sll_halen (me example_peer))) (sll_addr (he example_peer)) = own_hw example_ctl \<and>
   sll_pkttype example_from \<in> {PACKET_HOST, PACKET_BROADCAST, PACKET_MULTICAST} \<and>
   sll_hatype example_from = sll_hatype (me example_peer) \<and>
   send_pack_buf example_peer = example_request \<and>
   frame_accepted example_ctl example_request 28 example_from \<and>
   fst (recv_pack example_ctl example_request 28 example_from) \<noteq> 0"
proof -
  have a: "\<not> advert example_peer" by code_simp
  have b: "unat (sll_halen (me example_peer)) \<le> length (sll_addr (me example_peer))"
    by code_simp
  have c: "unat (sll_halen (me example_peer)) \<le> length (sll_addr (he example_peer))"
    by code_simp
  have d: "\<not> dad example_ctl" by code_simp
  have e: "gsrc example_ctl = gdst example_peer" by code_simp
  have f: "gdst example_ctl = gsrc example_peer" by code_simp
  have g: "sll_halen (me example_ctl) = sll_halen (me example_peer)" by code_simp
  have h: "take (unat (sll_halen (me example_peer))) (sll_addr (he example_peer)) =
           own_hw example_ctl"
    by code_simp
  have i: "sll_pkttype example_from \<in> {PACKET_HOST, PACKET_BROADCAST, PACKET_MULTICAST}"
    by code_simp
  have j: "sll_hatype example_from = sll_hatype (me example_peer)" by code_simp
  have k: "send_pack_buf example_peer = example_request" by code_simp
  have l: "int (length example_request) = 28" by code_simp
  from request_round_trip[OF a b c d e f g h i j, of "[]"] a b c d e f g h i j k l
  show ?thesis by simp
qed

subsection \<open>The value returned by the loop\<close>

text \<open>
  Claim C2. The value the event loop returns should be the base exit code of \<open>finish\<close>,
  combined by bitwise OR with 2 if a receive attempt failed with the network down, and
  with 1 if and only if \<open>brd_sent\<close> equals \<open>received\<close> at loop exit. The source does
  this only where \<^verbatim>\<open>perror\<close> leaves \<^verbatim>\<open>errno\<close> alone (\<open>event_loop_return_value_kept\<close>):
  it reports the failure with \<^verbatim>\<open>perror\<close> before it tests \<^verbatim>\<open>errno\<close>. In the example the
  first receive attempt fails with \<^verbatim>\<open>ENETDOWN\<close>, \<^verbatim>\<open>perror\<close> leaves \<^verbatim>\<open>EINVAL\<close>, an interrupt
  ends the loop after one unanswered broadcast probe, and the loop returns 1 where
  the rule gives 3.
\<close>

theorem event_loop_netdown_lost:
  "netdown_wake (example_wakes ! 0) \<and>
   event_loop example_start True \<lparr>tv_sec = 1, tv_nsec = 0\<rparr> 28 example_wakes =
     Some (1, snd (send_pack example_start \<lparr>tv_sec = 1, tv_nsec = 0\<rparr> 28), 2) \<and>
   snd (finish (snd (send_pack example_start \<lparr>tv_sec = 1, tv_nsec = 0\<rparr> 28))) OR 2 OR
     (if brd_sent (snd (send_pack example_start \<lparr>tv_sec = 1, tv_nsec = 0\<rparr> 28)) =
         received (snd (send_pack example_start \<lparr>tv_sec = 1, tv_nsec = 0\<rparr> 28))
      then 1 else 0) = 3"
  by code_simp

text \<open>In particular the loop does not return the 3 of the rule on these wake-ups.\<close>

theorem event_loop_netdown_lost_witness:
  "event_loop example_start True \<lparr>tv_sec = 1, tv_nsec = 0\<rparr> 28 example_wakes \<noteq>
     Some (3, snd (send_pack example_start \<lparr>tv_sec = 1, tv_nsec = 0\<rparr> 28), 2)"
  using event_loop_netdown_lost by simp

end
